theory Spec2Isabelle
  imports Main
begin

section \<open>The real-time channel's error table (package errors)\<close>

text \<open>
  The Go source declares seven untyped integer constants and a map literal from
  \<open>int\<close> to \<open>string\<close>. The map literal is kept as the association list it is
  written as; the map itself is \<open>map_of\<close> of that list.
\<close>

definition WSErrorOK :: int where "WSErrorOK = 0"
definition WSErrorUnknownMessage :: int where "WSErrorUnknownMessage = 10001"
definition WSErrorTokenInvalid :: int where "WSErrorTokenInvalid = 10002"
definition WSErrorNoPermission :: int where "WSErrorNoPermission = 10003"
definition WSErrorRoomNoExist :: int where "WSErrorRoomNoExist = 10011"
definition WSErrorRoomInPK :: int where "WSErrorRoomInPK = 10012"
definition WSErrorRoomNotInPK :: int where "WSErrorRoomNotInPK = 10013"

definition WSErrorTable :: "(int \<times> string) list" where
  "WSErrorTable =
     [(WSErrorOK, ''''),
      (WSErrorUnknownMessage, ''unknown message''),
      (WSErrorTokenInvalid, ''token invalid''),
      (WSErrorNoPermission, ''no permission''),
      (WSErrorRoomNoExist, ''room no exist''),
      (WSErrorRoomInPK, ''room in PK''),
      (WSErrorRoomNotInPK, ''room not in PK'')]"

definition WSErrorToString :: "int \<rightharpoonup> string" where
  "WSErrorToString = map_of WSErrorTable"

section \<open>The request context and what a handler does to the outside world\<close>

text \<open>
  The handlers are methods over a \<open>*gin.Context\<close>. The part of the context they read is
  the query string and the key/value store that the middleware fills (the request logger
  under \<open>protocol.XLogKey\<close>, the authenticated account under
  \<open>protocol.UserIDContextKey\<close>). Both keys are constants of package \<open>protocol\<close>, which
  is outside the files at hand; they are kept as two distinct key names. A stored value is
  an \<open>interface{}\<close>: a logger (with its request ID), a string, or something else.
\<close>

datatype ContextKey = XLogKey | UserIDContextKey

datatype Value = VLogger string | VString string | VOther

record Context =
  query :: "string \<rightharpoonup> string"
  keys :: "ContextKey \<rightharpoonup> Value"

text \<open>\<open>c.Query\<close> gives the empty string for an absent parameter, \<open>c.GetQuery\<close> also
  says whether it was there, \<open>c.Get\<close> gives the stored value and whether it exists, and
  \<open>c.GetString\<close> gives the empty string unless a string is stored.\<close>

definition Query :: "Context \<Rightarrow> string \<Rightarrow> string" where
  "Query c k = (case query c k of Some v \<Rightarrow> v | None \<Rightarrow> [])"

definition GetQuery :: "Context \<Rightarrow> string \<Rightarrow> string option" where
  "GetQuery c k = query c k"

definition Get :: "Context \<Rightarrow> ContextKey \<Rightarrow> Value option" where
  "Get c k = keys c k"

definition GetString :: "Context \<Rightarrow> ContextKey \<Rightarrow> string" where
  "GetString c k = (case keys c k of Some (VString s) \<Rightarrow> s | _ \<Rightarrow> [])"

text \<open>
  A handler can panic: \<open>c.MustGet\<close> panics on an absent key, and a type assertion
  \<open>v.(T)\<close> panics when the value is nil or of another type.
\<close>

datatype Panic = PanicMustGet ContextKey | PanicTypeAssertion

text \<open>\<open>c.MustGet(protocol.XLogKey).(*xlog.Logger)\<close>, giving the logger's request ID.\<close>

definition MustGetLogger :: "Context \<Rightarrow> Panic + string" where
  "MustGetLogger c =
     (case Get c XLogKey of
        None \<Rightarrow> Inl (PanicMustGet XLogKey)
      | Some (VLogger reqId) \<Rightarrow> Inr reqId
      | Some _ \<Rightarrow> Inl PanicTypeAssertion)"

text \<open>
  Errors. The services return Go \<open>error\<close> values; a handler tests whether the value is
  a \<open>*errors.ServerError\<close> and switches on its code. The code constants live in package
  \<open>errors\<close> outside the files at hand: the five that the handlers name are constructors
  here, \<open>ServerErrorNoPermission\<close> stands for the specification's NoPermission code, and
  \<open>ServerErrorOther\<close> for every further code.
\<close>

datatype ServerErrorCode =
    ServerErrorRoomNameUsed
  | ServerErrorTooManyRooms
  | ServerErrorRoomNotFound
  | ServerErrorSMSSendTooFrequent
  | ServerErrorUserLoggedin
  | ServerErrorNoPermission
  | ServerErrorOther nat

datatype error = ServerError ServerErrorCode | PlainError string

text \<open>
  The transport-facing error objects are built by constructors of package \<open>errors\<close>
  (\<open>NewHTTPErrorBadRequest\<close> and so on) and completed with \<open>WithRequestID\<close> and
  \<open>WithMessage\<close>; one is kept as the constructor's name, the request ID and the message
  when one was set.
\<close>

datatype HTTPErrorKind =
    HTTPErrorBadRequest
  | HTTPErrorInvalidRoomName
  | HTTPErrorInternal
  | HTTPErrorRoomNameused
  | HTTPErrorTooManyRooms
  | HTTPErrorNoSuchRoom
  | HTTPErrorInvalidPhoneNumber
  | HTTPErrorSMSSendTooFrequent
  | HTTPErrorNotLoggedIn

record HTTPError =
  Kind :: HTTPErrorKind
  RequestID :: string
  Message :: "string option"

definition NewHTTPError :: "HTTPErrorKind \<Rightarrow> HTTPError" where
  "NewHTTPError k = \<lparr>Kind = k, RequestID = [], Message = None\<rparr>"

definition WithRequestID :: "string \<Rightarrow> HTTPError \<Rightarrow> HTTPError" where
  "WithRequestID r e = e\<lparr>RequestID := r\<rparr>"

definition WithMessage :: "string \<Rightarrow> HTTPError \<Rightarrow> HTTPError" where
  "WithMessage m e = e\<lparr>Message := Some m\<rparr>"

text \<open>The net/http status constants the handlers use.\<close>

definition StatusOK :: nat where "StatusOK = 200"
definition StatusBadRequest :: nat where "StatusBadRequest = 400"
definition StatusUnauthorized :: nat where "StatusUnauthorized = 401"
definition StatusForbidden :: nat where "StatusForbidden = 403"
definition StatusNotFound :: nat where "StatusNotFound = 404"
definition StatusConflict :: nat where "StatusConflict = 409"
definition StatusTooManyRequests :: nat where "StatusTooManyRequests = 429"
definition StatusInternalServerError :: nat where "StatusInternalServerError = 500"
definition StatusServiceUnavailable :: nat where "StatusServiceUnavailable = 503"

text \<open>The records of package \<open>protocol\<close> that the room handlers build and read.\<close>

datatype LiveRoomStatus =
    LiveRoomStatusSingle
  | LiveRoomStatusPKInviting
  | LiveRoomStatusPKConnected
  | LiveRoomStatusClosed

record LiveRoom =
  ID :: string
  Name :: string
  Creator :: string
  PlayURL :: string
  RTCRoom :: string
  Status :: LiveRoomStatus

record GetRoomResponse =
  GetRoom_ID :: string
  GetRoom_Name :: string

record CreateRoomArgs =
  Args_RoomName :: string

record CloseRoomArgs =
  Args_RoomID :: string

record CreateRoomResponse =
  RoomID :: string
  RoomName :: string
  Resp_RTCRoom :: string
  RTCRoomToken :: string

text \<open>
  What a handler does to the outside world is kept as a trace: the bodies it writes with
  \<open>c.JSON\<close> (with their status), the cookies it sets, the calls it makes on the service
  interfaces, and the lines it logs (level and format string).
\<close>

datatype Body =
    BodyHTTPError HTTPError
  | BodyCreateRoom CreateRoomResponse
  | BodyString string
  | BodyError error

datatype CookieName = LoginTokenKey

record Cookie =
  CookieKey :: CookieName
  CookieValue :: string
  MaxAge :: int
  Path :: string
  Domain :: string
  Secure :: bool
  HttpOnly :: bool

datatype Call =
    CallCreateRoom LiveRoom
  | CallListPKRooms string
  | CallCloseRoom string string
  | CallSMSSend string
  | CallAccountLogout string

datatype LogLevel = Info | Error

record Effects =
  responses :: "(nat \<times> Body) list"
  cookies :: "Cookie list"
  calls :: "Call list"
  logs :: "(LogLevel \<times> string) list"

definition noEffects :: Effects where
  "noEffects = \<lparr>responses = [], cookies = [], calls = [], logs = []\<rparr>"

definition JSON :: "nat \<Rightarrow> Body \<Rightarrow> Effects \<Rightarrow> Effects" where
  "JSON code body e = e\<lparr>responses := responses e @ [(code, body)]\<rparr>"

definition SetCookie :: "Cookie \<Rightarrow> Effects \<Rightarrow> Effects" where
  "SetCookie ck e = e\<lparr>cookies := cookies e @ [ck]\<rparr>"

definition called :: "Call \<Rightarrow> Effects \<Rightarrow> Effects" where
  "called cl e = e\<lparr>calls := calls e @ [cl]\<rparr>"

definition logf :: "LogLevel \<Rightarrow> string \<Rightarrow> Effects \<Rightarrow> Effects" where
  "logf lvl fmt e = e\<lparr>logs := logs e @ [(lvl, fmt)]\<rparr>"

section \<open>handler/room.go\<close>

text \<open>
  \<open>RoomInterface\<close> is the storage-side service the handler calls. Each handler calls it
  at most once per request, so a method is what it answers to that call.
\<close>

record RoomInterface =
  Room_CreateRoom :: "LiveRoom \<Rightarrow> error option"
  Room_ListAllRooms :: "LiveRoom list \<times> error option"
  Room_ListPKRooms :: "string \<Rightarrow> LiveRoom list \<times> error option"
  Room_CloseRoom :: "string \<Rightarrow> string \<Rightarrow> error option"

record RoomHandler =
  Room :: RoomInterface
  LiveHost :: string
  LiveHub :: string

text \<open>\<open>ListCanPKRooms\<close>: the response object is filled room by room and the function
  ends; nothing is written to the context.\<close>

definition ListCanPKRooms :: "RoomHandler \<Rightarrow> Context \<Rightarrow> Effects \<times> Panic option" where
  "ListCanPKRooms h c =
     (case MustGetLogger c of
        Inl p \<Rightarrow> (noEffects, Some p)
      | Inr reqId \<Rightarrow>
          let userID = GetString c UserIDContextKey;
              (rooms, err) = Room_ListPKRooms (Room h) userID;
              e1 = called (CallListPKRooms userID) noEffects;
              e2 = (if err \<noteq> None
                    then logf Error ''failed to list rooms which can be PKed, error %v'' e1
                    else e1);
              resp = foldl (\<lambda>acc room. acc @ [\<lparr>GetRoom_ID = ID room, GetRoom_Name = Name room\<rparr>])
                       [] rooms
          in (e2, None))"

text \<open>\<open>ListAllRooms\<close> has an empty body.\<close>

definition ListAllRooms :: "RoomHandler \<Rightarrow> Context \<Rightarrow> Effects \<times> Panic option" where
  "ListAllRooms h c = (noEffects, None)"

definition ListRooms :: "RoomHandler \<Rightarrow> Context \<Rightarrow> Effects \<times> Panic option" where
  "ListRooms h c =
     (if Query c ''can_pk'' = ''true'' then ListCanPKRooms h c else ListAllRooms h c)"

definition validateRoomName :: "string \<Rightarrow> bool" where
  "validateRoomName roomName =
     (let roomNameMaxLength = 100
      in if length roomName = 0 \<or> length roomName > roomNameMaxLength then False else True)"

text \<open>
  \<open>generateRoomID\<close> draws from the process-wide \<open>math/rand\<close> source. The source is a
  parameter: \<open>rnd i\<close> is the raw value behind the \<open>i\<close>-th draw of the call, and
  \<open>rand.Intn(n)\<close> reduces it to \<open>[0, n)\<close>. The index is therefore always inside
  \<open>alphaNum\<close>, and \<open>alphaNum[index]\<close> never panics.
\<close>

type_synonym Rand = "nat \<Rightarrow> nat"

definition Intn :: "Rand \<Rightarrow> nat \<Rightarrow> nat \<Rightarrow> nat" where
  "Intn rnd i n = rnd i mod n"

definition alphaNum :: string where
  "alphaNum = ''0123456789abcdefghijklmnopqrstuvwxyz''"

definition idLength :: nat where
  "idLength = 16"

function generateRoomID_loop :: "Rand \<Rightarrow> nat \<Rightarrow> string \<Rightarrow> string" where
  "generateRoomID_loop rnd i roomID =
     (if i < idLength
      then let index = Intn rnd i (length alphaNum)
           in generateRoomID_loop rnd (i + 1) (roomID @ [alphaNum ! index])
      else roomID)"
  by pat_completeness auto
termination
  by (relation "measure (\<lambda>(rnd, i, roomID). idLength - i)") auto

declare generateRoomID_loop.simps [simp del]

definition generateRoomID :: "Rand \<Rightarrow> string" where
  "generateRoomID rnd = generateRoomID_loop rnd 0 []"

definition generatePlayURL :: "RoomHandler \<Rightarrow> string \<Rightarrow> string" where
  "generatePlayURL h roomID = ''rtmp://'' @ LiveHost h @ ''/'' @ LiveHub h @ ''/'' @ roomID"

definition generateRTCRoomToken :: "RoomHandler \<Rightarrow> string \<Rightarrow> string" where
  "generateRTCRoomToken h roomID = []"

text \<open>
  \<open>CreateRoom\<close>. The argument \<open>bound\<close> is what \<open>c.BindJSON(args)\<close> yields: the
  decoded arguments, or \<open>None\<close> when the body does not decode.
  \<open>CreateRoom_status\<close> is the handler's error branch for what
  \<open>h.Room.CreateRoom\<close> returned: the type assertion \<open>err.(*errors.ServerError)\<close> and
  the \<open>switch\<close> on \<open>serverErr.Code\<close>, giving the status and the error object that
  the branch writes.
\<close>

definition CreateRoom_status :: "error \<Rightarrow> nat \<times> HTTPErrorKind" where
  "CreateRoom_status err =
     (case err of
        PlainError m \<Rightarrow> (StatusInternalServerError, HTTPErrorInternal)
      | ServerError code \<Rightarrow>
          (case code of
             ServerErrorRoomNameUsed \<Rightarrow> (StatusConflict, HTTPErrorRoomNameused)
           | ServerErrorTooManyRooms \<Rightarrow> (StatusServiceUnavailable, HTTPErrorTooManyRooms)
           | _ \<Rightarrow> (StatusInternalServerError, HTTPErrorInternal)))"

definition CreateRoom ::
  "RoomHandler \<Rightarrow> Context \<Rightarrow> CreateRoomArgs option \<Rightarrow> Rand \<Rightarrow> Effects \<times> Panic option" where
  "CreateRoom h c bound rnd =
     (case MustGetLogger c of
        Inl p \<Rightarrow> (noEffects, Some p)
      | Inr requestID \<Rightarrow>
          let userID = GetString c UserIDContextKey in
          (case bound of
             None \<Rightarrow>
               (JSON StatusBadRequest
                  (BodyHTTPError (WithMessage ''invalid args in request body''
                     (WithRequestID requestID (NewHTTPError HTTPErrorBadRequest))))
                  (logf Info ''invalid args in body, error %v'' noEffects), None)
           | Some args \<Rightarrow>
               if \<not> validateRoomName (Args_RoomName args)
               then
                 (JSON StatusBadRequest
                    (BodyHTTPError (WithMessage (''invalid room name '' @ Args_RoomName args)
                       (WithRequestID requestID (NewHTTPError HTTPErrorInvalidRoomName))))
                    (logf Info ''invalid room name %s'' noEffects), None)
               else
                 let roomID = generateRoomID rnd;
                     room = \<lparr>ID = roomID, Name = Args_RoomName args, Creator = userID,
                             PlayURL = generatePlayURL h roomID, RTCRoom = roomID,
                             Status = LiveRoomStatusSingle\<rparr>;
                     e1 = called (CallCreateRoom room) noEffects
                 in (case Room_CreateRoom (Room h) room of
                       Some err \<Rightarrow>
                         let e2 = (case err of
                                     PlainError m \<Rightarrow> logf Error ''create room error %v'' e1
                                   | ServerError code \<Rightarrow> e1);
                             (status, kind) = CreateRoom_status err
                         in (JSON status
                               (BodyHTTPError (WithRequestID requestID (NewHTTPError kind))) e2,
                             None)
                     | None \<Rightarrow>
                         let e2 = logf Info ''user %s created room: ID %s, name %s'' e1;
                             resp = \<lparr>RoomID = roomID, RoomName = Args_RoomName args,
                                     Resp_RTCRoom = roomID,
                                     RTCRoomToken = generateRTCRoomToken h roomID\<rparr>
                         in (JSON StatusOK (BodyCreateRoom resp) e2, None))))"

text \<open>
  \<open>CloseRoom\<close>. \<open>CloseRoom_status\<close> is its error branch, as above: the \<open>switch\<close> has
  the single case \<open>ServerErrorRoomNotFound\<close>. On success the handler logs and writes
  nothing.
\<close>

definition CloseRoom_status :: "error \<Rightarrow> nat \<times> HTTPErrorKind" where
  "CloseRoom_status err =
     (case err of
        PlainError m \<Rightarrow> (StatusInternalServerError, HTTPErrorInternal)
      | ServerError code \<Rightarrow>
          (case code of
             ServerErrorRoomNotFound \<Rightarrow> (StatusNotFound, HTTPErrorNoSuchRoom)
           | _ \<Rightarrow> (StatusInternalServerError, HTTPErrorInternal)))"

definition CloseRoom ::
  "RoomHandler \<Rightarrow> Context \<Rightarrow> CloseRoomArgs option \<Rightarrow> Effects \<times> Panic option" where
  "CloseRoom h c bound =
     (case MustGetLogger c of
        Inl p \<Rightarrow> (noEffects, Some p)
      | Inr requestID \<Rightarrow>
          let userID = GetString c UserIDContextKey in
          (case bound of
             None \<Rightarrow>
               (JSON StatusBadRequest
                  (BodyHTTPError (WithMessage ''invalid args in request body''
                     (WithRequestID requestID (NewHTTPError HTTPErrorBadRequest))))
                  (logf Info ''invalid args in body, error %v'' noEffects), None)
           | Some args \<Rightarrow>
               let e1 = called (CallCloseRoom userID (Args_RoomID args)) noEffects
               in (case Room_CloseRoom (Room h) userID (Args_RoomID args) of
                     Some err \<Rightarrow>
                       let e2 = (case err of
                                   PlainError m \<Rightarrow> logf Error ''close room error %v'' e1
                                 | ServerError code \<Rightarrow> e1);
                           (status, kind) = CloseRoom_status err
                       in (JSON status
                             (BodyHTTPError (WithRequestID requestID (NewHTTPError kind))) e2,
                           None)
                   | None \<Rightarrow> (logf Info ''user %s closed room: ID %s'' e1, None))))"

section \<open>handler/account.go\<close>

record Account =
  Account_ID :: string
  PhoneNumber :: string
  Nickname :: string
  Gender :: string

record AccountInterface =
  Account_GetAccountByPhoneNumber :: "string \<Rightarrow> error + Account"
  Account_GetAccountByID :: "string \<Rightarrow> error + Account"
  Account_CreateAccount :: "Account \<Rightarrow> error option"
  Account_UpdateAccount :: "string \<Rightarrow> Account \<Rightarrow> error + Account"
  Account_AccountLogin :: "string \<Rightarrow> error + string"
  Account_AccountLogout :: "string \<Rightarrow> error option"

record SMSCodeInterface =
  SMS_Send :: "string \<Rightarrow> error option"
  SMS_Validate :: "string \<Rightarrow> string \<Rightarrow> error option"

record AccountHandler =
  Account :: AccountInterface
  SMSCode :: SMSCodeInterface

text \<open>
  \<open>validatePhoneNumber\<close> compiles the expression \<open>1[3-9][0-9]{9}\<close> and asks
  \<open>MatchString\<close>, which reports whether the string \<^emph>\<open>contains\<close> a match: the expression
  has no anchors. \<open>matchHere\<close> is a match of the expression at the start of the string,
  and \<open>MatchString\<close> tries every start from left to right.
\<close>

definition isDigit :: "char \<Rightarrow> bool" where
  "isDigit ch = (ch \<in> set ''0123456789'')"

definition isThreeToNine :: "char \<Rightarrow> bool" where
  "isThreeToNine ch = (ch \<in> set ''3456789'')"

fun matchHere :: "string \<Rightarrow> bool" where
  "matchHere (c1 # c2 # rest) =
     (c1 = CHR ''1'' \<and> isThreeToNine c2 \<and> 9 \<le> length rest \<and> list_all isDigit (take 9 rest))"
| "matchHere _ = False"

fun MatchString :: "string \<Rightarrow> bool" where
  "MatchString [] = matchHere []"
| "MatchString (ch # s) = (matchHere (ch # s) \<or> MatchString s)"

definition validatePhoneNumber :: "string \<Rightarrow> bool" where
  "validatePhoneNumber phoneNumber = MatchString phoneNumber"

definition SendSMSCode :: "AccountHandler \<Rightarrow> Context \<Rightarrow> Effects \<times> Panic option" where
  "SendSMSCode h c =
     (case MustGetLogger c of
        Inl p \<Rightarrow> (noEffects, Some p)
      | Inr requestID \<Rightarrow>
          (case GetQuery c ''phone_number'' of
             None \<Rightarrow>
               (JSON StatusBadRequest
                  (BodyHTTPError (WithMessage ''empty phone number''
                     (WithRequestID requestID (NewHTTPError HTTPErrorInvalidPhoneNumber))))
                  noEffects, None)
           | Some phoneNumber \<Rightarrow>
               if \<not> validatePhoneNumber phoneNumber
               then
                 (JSON StatusBadRequest
                    (BodyHTTPError (WithMessage ''invalid phone number''
                       (WithRequestID requestID (NewHTTPError HTTPErrorInvalidPhoneNumber))))
                    noEffects, None)
               else
                 let e1 = called (CallSMSSend phoneNumber) noEffects
                 in (case SMS_Send (SMSCode h) phoneNumber of
                       Some err \<Rightarrow>
                         if err = ServerError ServerErrorSMSSendTooFrequent
                         then
                           (JSON StatusTooManyRequests
                              (BodyHTTPError (WithRequestID requestID
                                 (NewHTTPError HTTPErrorSMSSendTooFrequent)))
                              (logf Info
                                 ''SMS code has been sent to %s, cannot resend in short time'' e1),
                            None)
                         else
                           (JSON StatusInternalServerError (BodyError err)
                              (logf Error
                                 ''failed to send sms code to phone number %s, error %v'' e1),
                            None)
                     | None \<Rightarrow>
                         (JSON StatusOK (BodyString [])
                            (logf Info ''SMS code sent to number %s'' e1), None))))"

text \<open>
  \<open>Logout\<close>. The branch for an absent ID writes the 401 answer and falls through (it has
  no \<open>return\<close>); the next statement evaluates \<open>id.(string)\<close> as the argument of
  \<open>AccountLogout\<close>, which panics unless a string is stored. The error branch of
  \<open>AccountLogout\<close> falls through as well.
\<close>

definition Logout :: "AccountHandler \<Rightarrow> Context \<Rightarrow> Effects \<times> Panic option" where
  "Logout h c =
     (case MustGetLogger c of
        Inl p \<Rightarrow> (noEffects, Some p)
      | Inr requestID \<Rightarrow>
          let found = Get c UserIDContextKey;
              e1 = (if found = None
                    then JSON StatusUnauthorized
                           (BodyHTTPError (WithRequestID requestID
                              (NewHTTPError HTTPErrorNotLoggedIn)))
                           (logf Info ''cannot find ID in context'' noEffects)
                    else noEffects)
          in (case found of
                Some (VString userID) \<Rightarrow>
                  let e2 = called (CallAccountLogout userID) e1;
                      e3 = (if Account_AccountLogout (Account h) userID \<noteq> None
                            then JSON StatusUnauthorized (BodyString [])
                                   (logf Error ''user %s log out error: %v'' e2)
                            else e2);
                      e4 = logf Info ''user %s logged out'' e3;
                      e5 = SetCookie \<lparr>CookieKey = LoginTokenKey, CookieValue = [],
                                       MaxAge = - 1, Path = ''/'', Domain = ''qlive.qiniu.com'',
                                       Secure = True, HttpOnly = False\<rparr> e4
                  in (JSON StatusOK (BodyString []) e5, None)
              | _ \<Rightarrow> (e1, Some PanicTypeAssertion)))"

section \<open>controller/auth.go\<close>

text \<open>
  The collection of logged-in users. A document is a \<open>protocol.ActiveUser\<close>, of which
  \<open>GetIDByToken\<close> reads the field \<open>ID\<close> and filters on the document field
  \<open>token\<close>. The code knows no expiry: a document is an active session for as long as it
  is in the collection. \<open>Find(filter).One(result)\<close> gives the first document that
  passes the filter, the error \<open>ErrNoDocuments\<close> when there is none, and another error
  when the driver cannot answer (\<open>outage\<close>).
\<close>

record ActiveUser =
  ActiveUser_ID :: string
  Token :: string

datatype MongoError = ErrNoDocuments | ErrDriver string

record Collection =
  docs :: "ActiveUser list"
  outage :: "string option"

definition IsErrNoDocuments :: "MongoError \<Rightarrow> bool" where
  "IsErrNoDocuments err = (err = ErrNoDocuments)"

definition FindOne :: "Collection \<Rightarrow> (ActiveUser \<Rightarrow> bool) \<Rightarrow> MongoError + ActiveUser" where
  "FindOne coll flt =
     (case outage coll of
        Some m \<Rightarrow> Inl (ErrDriver m)
      | None \<Rightarrow>
          (case find flt (docs coll) of
             None \<Rightarrow> Inl ErrNoDocuments
           | Some d \<Rightarrow> Inr d))"

type_synonym Logger = "(LogLevel \<times> string) list"

record AuthController =
  activeUserColl :: Collection
  xl :: Logger

text \<open>
  \<open>GetIDByToken\<close> logs to the logger it is given, or to the controller's own when it is
  given none. The result is the ID or the error, the controller afterwards, and the given
  logger afterwards.
\<close>

definition GetIDByToken ::
  "AuthController \<Rightarrow> Logger option \<Rightarrow> string
     \<Rightarrow> (MongoError + string) \<times> AuthController \<times> Logger option" where
  "GetIDByToken c xlArg token =
     (let emit = (\<lambda>entry. case xlArg of
                              None \<Rightarrow> (c\<lparr>xl := xl c @ [entry]\<rparr>, None)
                            | Some l \<Rightarrow> (c, Some (l @ [entry])))
      in case FindOne (activeUserColl c) (\<lambda>d. Token d = token) of
           Inl err \<Rightarrow>
             if \<not> IsErrNoDocuments err
             then (Inl err, emit (Info, ''token %s not found in active users''))
             else (Inl err, emit (Error, ''failed to find token in active users, error %v''))
         | Inr activeUserRecord \<Rightarrow> (Inr (ActiveUser_ID activeUserRecord), c, xlArg))"

section \<open>The specification's status table, and concrete inputs\<close>

text \<open>
  The table of the specification's error taxonomy, as the claim about the room handlers
  words it: RoomNameUsed gives 409, TooManyRooms 503, NoPermission 403, RoomNoExist 404,
  and any other code 500. It is written from the specification, to be compared with what
  the handlers answer.
\<close>

definition claimed_transport_status :: "ServerErrorCode \<Rightarrow> nat" where
  "claimed_transport_status code =
     (case code of
        ServerErrorRoomNameUsed \<Rightarrow> 409
      | ServerErrorTooManyRooms \<Rightarrow> 503
      | ServerErrorNoPermission \<Rightarrow> 403
      | ServerErrorRoomNotFound \<Rightarrow> 404
      | _ \<Rightarrow> 500)"

text \<open>
  Concrete requests on which the theorems below are evaluated: a context with a request
  logger and the authenticated account \<open>alice\<close>, a context with the logger only, a room
  service that accepts every call, one that answers every call with a given error, and a
  random source whose \<open>i\<close>-th raw value is \<open>i\<close>.
\<close>

definition aliceContext :: Context where
  "aliceContext =
     \<lparr>query = Map.empty,
      keys = [XLogKey \<mapsto> VLogger ''req-1'', UserIDContextKey \<mapsto> VString ''alice'']\<rparr>"

definition anonymousContext :: Context where
  "anonymousContext = \<lparr>query = Map.empty, keys = [XLogKey \<mapsto> VLogger ''req-2'']\<rparr>"

definition acceptingRooms :: RoomInterface where
  "acceptingRooms =
     \<lparr>Room_CreateRoom = (\<lambda>room. None),
      Room_ListAllRooms = ([], None),
      Room_ListPKRooms = (\<lambda>userID. ([], None)),
      Room_CloseRoom = (\<lambda>userID roomID. None)\<rparr>"

definition failingRooms :: "error \<Rightarrow> RoomInterface" where
  "failingRooms err =
     \<lparr>Room_CreateRoom = (\<lambda>room. Some err),
      Room_ListAllRooms = ([], Some err),
      Room_ListPKRooms = (\<lambda>userID. ([], Some err)),
      Room_CloseRoom = (\<lambda>userID roomID. Some err)\<rparr>"

text \<open>
  A room service whose answers depend on the request: it refuses a room whose name is
  taken with RoomNameUsed and accepts every other room, and it knows no room to close.
\<close>

definition nameTakenRooms :: "string \<Rightarrow> RoomInterface" where
  "nameTakenRooms taken =
     \<lparr>Room_CreateRoom =
        (\<lambda>room. if Name room = taken then Some (ServerError ServerErrorRoomNameUsed)
                else None),
      Room_ListAllRooms = ([], None),
      Room_ListPKRooms = (\<lambda>userID. ([], None)),
      Room_CloseRoom = (\<lambda>userID roomID. Some (ServerError ServerErrorRoomNotFound))\<rparr>"

definition liveHandler :: "RoomInterface \<Rightarrow> RoomHandler" where
  "liveHandler svc = \<lparr>Room = svc, LiveHost = ''live.example.com'', LiveHub = ''qlive''\<rparr>"

definition countingRand :: Rand where
  "countingRand = (\<lambda>i. i)"

text \<open>
  A request for a verification code whose \<open>phone_number\<close> is a well-formed number with
  one letter in front, an SMS service that delivers every code, and a collection of two
  logged-in users.
\<close>

definition paddedPhoneContext :: Context where
  "paddedPhoneContext =
     \<lparr>query = [''phone_number'' \<mapsto> ''a13812345678''],
      keys = [XLogKey \<mapsto> VLogger ''req-3'']\<rparr>"

definition deliveringSMS :: SMSCodeInterface where
  "deliveringSMS =
     \<lparr>SMS_Send = (\<lambda>phoneNumber. None),
      SMS_Validate = (\<lambda>phoneNumber smsCode. None)\<rparr>"

definition twoUsers :: AuthController where
  "twoUsers =
     \<lparr>activeUserColl =
        \<lparr>docs = [\<lparr>ActiveUser_ID = ''user00000001'', Token = ''token-one''\<rparr>,
                  \<lparr>ActiveUser_ID = ''user00000002'', Token = ''token-two''\<rparr>],
         outage = None\<rparr>,
      xl = []\<rparr>"

section \<open>The room lifecycle service and its pairing state machine\<close>

text \<open>
  The handlers above only reach the room service through \<open>RoomInterface\<close>; its
  implementation, and with it the pairing of two rooms, is not among the files at hand.
  The definitions of this section are written from the specification (sections 3, 4.2
  and 4.3), one storage operation being one atomic step on the collection of rooms.
\<close>

text \<open>Modelled from the spec: the LiveRoom record of section 3, which adds the optional
  PartnerRoomID to the fields the handler fills; the implementation of the room service
  that stores it is missing from the files.\<close>

record PKRoom = LiveRoom +
  PartnerRoomID :: "string option"

text \<open>Modelled from the spec: the error codes the operations of section 4.2 fail with,
  and GenerationExhausted of section 4.3; the room service that returns them is missing
  from the files.\<close>

datatype RoomError =
    InvalidRoomName
  | RoomNameUsed
  | TooManyRooms
  | RoomNoExist
  | RoomInPK
  | RoomNotInPK
  | NoPermission
  | GenerationExhausted

text \<open>Modelled from the spec: the external configuration of the missing room service
  (the global capacity limit, and the host and hub the play URL is derived from).\<close>

record ServiceConfig =
  Capacity :: nat
  Host :: string
  Hub :: string

text \<open>Modelled from the spec: Storage.FindOne on the room collection by room ID, of the
  missing room service.\<close>

definition findRoom :: "string \<Rightarrow> PKRoom list \<Rightarrow> PKRoom option" where
  "findRoom roomID rooms = find (\<lambda>r. ID r = roomID) rooms"

text \<open>Modelled from the spec: the rooms that are not Closed, which hold the names in use
  and count against the capacity of the missing room service.\<close>

definition openRooms :: "PKRoom list \<Rightarrow> PKRoom list" where
  "openRooms rooms = filter (\<lambda>r. Status r \<noteq> LiveRoomStatusClosed) rooms"

text \<open>Modelled from the spec: CreateRoom(creatorID, name) of the missing room service
  (section 4.2) with the IDGenerator of section 4.3. \<open>candidates\<close> are the identifiers
  the generator produces in its bounded number of attempts; the first one that no stored
  room has is inserted, and GenerationExhausted is the failure when every one is taken.
  The room is inserted with Status Single and no partner.\<close>

definition Service_CreateRoom ::
  "ServiceConfig \<Rightarrow> string list \<Rightarrow> string \<Rightarrow> string \<Rightarrow> PKRoom list
     \<Rightarrow> RoomError + PKRoom list" where
  "Service_CreateRoom cfg candidates creatorID name rooms =
     (if \<not> (0 < length name \<and> length name \<le> 100) then Inl InvalidRoomName
      else if list_ex (\<lambda>r. Name r = name) (openRooms rooms) then Inl RoomNameUsed
      else if Capacity cfg \<le> length (openRooms rooms) then Inl TooManyRooms
      else (case find (\<lambda>roomID. \<not> list_ex (\<lambda>r. ID r = roomID) rooms) candidates of
              None \<Rightarrow> Inl GenerationExhausted
            | Some roomID \<Rightarrow>
                Inr (rooms @
                  [\<lparr>ID = roomID, Name = name, Creator = creatorID,
                    PlayURL = ''rtmp://'' @ Host cfg @ ''/'' @ Hub cfg @ ''/'' @ roomID,
                    RTCRoom = roomID, Status = LiveRoomStatusSingle,
                    PartnerRoomID = None\<rparr>])))"

text \<open>Modelled from the spec: the pairing transition of the missing room service on one
  stored room (section 4.2): the caller's room gets the target as partner, the target's
  room the caller, both become PKConnected, and every other room stays as it is.\<close>

definition pairRoom :: "string \<Rightarrow> string \<Rightarrow> PKRoom \<Rightarrow> PKRoom" where
  "pairRoom callerRoomID targetRoomID r =
     (if ID r = callerRoomID
      then r\<lparr>Status := LiveRoomStatusPKConnected, PartnerRoomID := Some targetRoomID\<rparr>
      else if ID r = targetRoomID
      then r\<lparr>Status := LiveRoomStatusPKConnected, PartnerRoomID := Some callerRoomID\<rparr>
      else r)"

text \<open>Modelled from the spec: RequestPK(callerRoomID, targetRoomID) of the missing room
  service (section 4.2): RoomNoExist when either room is missing or closed, RoomInPK when
  either is not Single, and otherwise both rooms are paired in one step.\<close>

definition Service_RequestPK ::
  "string \<Rightarrow> string \<Rightarrow> PKRoom list \<Rightarrow> RoomError + PKRoom list" where
  "Service_RequestPK callerRoomID targetRoomID rooms =
     (case findRoom callerRoomID rooms of
        None \<Rightarrow> Inl RoomNoExist
      | Some a \<Rightarrow>
          (case findRoom targetRoomID rooms of
             None \<Rightarrow> Inl RoomNoExist
           | Some b \<Rightarrow>
               if Status a = LiveRoomStatusClosed \<or> Status b = LiveRoomStatusClosed
               then Inl RoomNoExist
               else if Status a \<noteq> LiveRoomStatusSingle \<or> Status b \<noteq> LiveRoomStatusSingle
               then Inl RoomInPK
               else Inr (map (pairRoom callerRoomID targetRoomID) rooms)))"

text \<open>Modelled from the spec: the closing transition of the missing room service on one
  stored room (section 4.2), \<open>room\<close> being the room that is closed as it was before:
  that room becomes Closed whatever its state was and, PartnerRoomID being set only in
  state PKConnected (section 3), loses its partner; when it was PKConnected, its partner
  room goes back to Single with no partner; every other room stays as it is.\<close>

definition closeRoom :: "PKRoom \<Rightarrow> PKRoom \<Rightarrow> PKRoom" where
  "closeRoom room r =
     (if ID r = ID room
      then r\<lparr>Status := LiveRoomStatusClosed, PartnerRoomID := None\<rparr>
      else if Status room = LiveRoomStatusPKConnected \<and> PartnerRoomID room = Some (ID r)
      then r\<lparr>Status := LiveRoomStatusSingle, PartnerRoomID := None\<rparr>
      else r)"

text \<open>Modelled from the spec: CloseRoom(callerID, roomID) of the missing room service
  (section 4.2): RoomNoExist for an unknown room, NoPermission unless the caller is the
  creator, and otherwise the room is closed and its partner released in one step.\<close>

definition Service_CloseRoom ::
  "string \<Rightarrow> string \<Rightarrow> PKRoom list \<Rightarrow> RoomError + PKRoom list" where
  "Service_CloseRoom callerID roomID rooms =
     (case findRoom roomID rooms of
        None \<Rightarrow> Inl RoomNoExist
      | Some room \<Rightarrow>
          if Creator room \<noteq> callerID then Inl NoPermission
          else Inr (map (closeRoom room) rooms))"

text \<open>Modelled from the spec: the requests that change the room collection of the
  missing room service, and the collection reached from the empty one by a sequence of
  them. A request that fails leaves the collection as it was.\<close>

datatype RoomOp =
    OpCreateRoom "string list" string string
  | OpRequestPK string string
  | OpCloseRoom string string

fun applyOp :: "ServiceConfig \<Rightarrow> RoomOp \<Rightarrow> PKRoom list \<Rightarrow> RoomError + PKRoom list" where
  "applyOp cfg (OpCreateRoom candidates creatorID name) rooms =
     Service_CreateRoom cfg candidates creatorID name rooms"
| "applyOp cfg (OpRequestPK callerRoomID targetRoomID) rooms =
     Service_RequestPK callerRoomID targetRoomID rooms"
| "applyOp cfg (OpCloseRoom callerID roomID) rooms =
     Service_CloseRoom callerID roomID rooms"

definition stepRooms :: "ServiceConfig \<Rightarrow> PKRoom list \<Rightarrow> RoomOp \<Rightarrow> PKRoom list" where
  "stepRooms cfg rooms op = (case applyOp cfg op rooms of Inl err \<Rightarrow> rooms | Inr rooms' \<Rightarrow> rooms')"

definition reached :: "ServiceConfig \<Rightarrow> RoomOp list \<Rightarrow> PKRoom list" where
  "reached cfg ops = foldl (stepRooms cfg) [] ops"

text \<open>Modelled from the spec: the pairing invariant of section 3. No two rooms share an
  ID, and a room with a partner is PKConnected and its partner is a stored, PKConnected
  room whose partner it is.\<close>

definition paired :: "PKRoom list \<Rightarrow> PKRoom \<Rightarrow> bool" where
  "paired rooms a =
     (case PartnerRoomID a of
        None \<Rightarrow> True
      | Some partnerID \<Rightarrow>
          Status a = LiveRoomStatusPKConnected
          \<and> list_ex (\<lambda>b. ID b = partnerID \<and> PartnerRoomID b = Some (ID a)
                            \<and> Status b = LiveRoomStatusPKConnected) rooms)"

definition pairing_invariant :: "PKRoom list \<Rightarrow> bool" where
  "pairing_invariant rooms = (distinct (map ID rooms) \<and> list_all (paired rooms) rooms)"

text \<open>Modelled from the spec: the scenario of section 8 on the missing room service:
  alice and bob each open a room and the two rooms are paired.\<close>

definition liveConfig :: ServiceConfig where
  "liveConfig = \<lparr>Capacity = 100, Host = ''live.example.com'', Hub = ''qlive''\<rparr>"

definition pairedScenario :: "RoomOp list" where
  "pairedScenario =
     [OpCreateRoom [''aaaaaaaaaaaaaaaa''] ''alice'' ''alice_stream'',
      OpCreateRoom [''aaaaaaaaaaaaaaaa'', ''bbbbbbbbbbbbbbbb''] ''bob'' ''bob_stream'',
      OpRequestPK ''aaaaaaaaaaaaaaaa'' ''bbbbbbbbbbbbbbbb'']"

definition aliceRoom :: PKRoom where
  "aliceRoom =
     \<lparr>ID = ''aaaaaaaaaaaaaaaa'', Name = ''alice_stream'', Creator = ''alice'',
      PlayURL = ''rtmp://live.example.com/qlive/aaaaaaaaaaaaaaaa'',
      RTCRoom = ''aaaaaaaaaaaaaaaa'', Status = LiveRoomStatusPKConnected,
      PartnerRoomID = Some ''bbbbbbbbbbbbbbbb''\<rparr>"

definition bobRoom :: PKRoom where
  "bobRoom =
     \<lparr>ID = ''bbbbbbbbbbbbbbbb'', Name = ''bob_stream'', Creator = ''bob'',
      PlayURL = ''rtmp://live.example.com/qlive/bbbbbbbbbbbbbbbb'',
      RTCRoom = ''bbbbbbbbbbbbbbbb'', Status = LiveRoomStatusPKConnected,
      PartnerRoomID = Some ''aaaaaaaaaaaaaaaa''\<rparr>"

lemmas WSError_consts =
  WSErrorOK_def WSErrorUnknownMessage_def WSErrorTokenInvalid_def WSErrorNoPermission_def
  WSErrorRoomNoExist_def WSErrorRoomInPK_def WSErrorRoomNotInPK_def

lemma WSErrorTable_keys:
  "map fst WSErrorTable = [0, 10001, 10002, 10003, 10011, 10012, 10013]"
  by (simp add: WSErrorTable_def WSError_consts)

lemma WSErrorTable_values:
  "map snd WSErrorTable =
     ['''', ''unknown message'', ''token invalid'', ''no permission'',
      ''room no exist'', ''room in PK'', ''room not in PK'']"
  by (simp add: WSErrorTable_def)

lemma WSErrorToString_dom:
  "dom WSErrorToString = {0, 10001, 10002, 10003, 10011, 10012, 10013}"
  by (simp add: WSErrorToString_def dom_map_of_conv_image_fst WSErrorTable_def WSError_consts)

text \<open>
  Claim C9. The table is defined on exactly the seven codes 0, 10001, 10002, 10003,
  10011, 10012 and 10013; each code has the one description written beside it in the
  source (the description of code 0, no error, is the empty string); no key is listed
  twice, and no two codes share a description, so the table is one-to-one on its domain.
\<close>

theorem WSErrorToString_table:
  "dom WSErrorToString = {0, 10001, 10002, 10003, 10011, 10012, 10013}
   \<and> WSErrorToString 0 = Some ''''
   \<and> WSErrorToString 10001 = Some ''unknown message''
   \<and> WSErrorToString 10002 = Some ''token invalid''
   \<and> WSErrorToString 10003 = Some ''no permission''
   \<and> WSErrorToString 10011 = Some ''room no exist''
   \<and> WSErrorToString 10012 = Some ''room in PK''
   \<and> WSErrorToString 10013 = Some ''room not in PK''
   \<and> distinct (map fst WSErrorTable)
   \<and> distinct (map snd WSErrorTable)
   \<and> inj_on WSErrorToString (dom WSErrorToString)"
proof -
  have vals:
    "WSErrorToString 0 = Some ''''"
    "WSErrorToString 10001 = Some ''unknown message''"
    "WSErrorToString 10002 = Some ''token invalid''"
    "WSErrorToString 10003 = Some ''no permission''"
    "WSErrorToString 10011 = Some ''room no exist''"
    "WSErrorToString 10012 = Some ''room in PK''"
    "WSErrorToString 10013 = Some ''room not in PK''"
    by (simp_all add: WSErrorToString_def WSErrorTable_def WSError_consts)
  have dk: "distinct (map fst WSErrorTable)"
    by (simp add: WSErrorTable_keys)
  have dv: "distinct (map snd WSErrorTable)"
    by (simp add: WSErrorTable_values)
  have inj: "inj_on WSErrorToString (dom WSErrorToString)"
    unfolding WSErrorToString_dom by (simp add: vals)
  from WSErrorToString_dom vals dk dv inj show ?thesis by simp
qed

section \<open>Properties of handler/room.go\<close>

lemmas status_consts =
  StatusOK_def StatusBadRequest_def StatusUnauthorized_def StatusForbidden_def
  StatusNotFound_def StatusConflict_def StatusTooManyRequests_def
  StatusInternalServerError_def StatusServiceUnavailable_def

lemmas effect_defs = noEffects_def JSON_def SetCookie_def called_def logf_def

lemmas http_error_defs = NewHTTPError_def WithRequestID_def WithMessage_def

lemma ListCanPKRooms_silent:
  "responses (fst (ListCanPKRooms h c)) = [] \<and> cookies (fst (ListCanPKRooms h c)) = []"
  by (simp add: ListCanPKRooms_def effect_defs Let_def split: sum.splits prod.splits)

lemma ListAllRooms_silent: "ListAllRooms h c = (noEffects, None)"
  by (simp add: ListAllRooms_def)

text \<open>
  Claim C1 (the code does otherwise). \<open>ListRooms\<close> without \<open>can_pk=true\<close> runs
  \<open>ListAllRooms\<close>, whose body is empty: it never asks the room service and has no
  effect at all, and whatever the query says, \<open>ListRooms\<close> writes no response. The
  caller is never told which rooms are not closed.
\<close>

theorem ListRooms_returns_no_rooms:
  "ListAllRooms h c = (noEffects, None)
   \<and> responses (fst (ListRooms h c)) = []
   \<and> (Query c ''can_pk'' = ''true'' \<or> calls (fst (ListRooms h c)) = [])"
  using ListCanPKRooms_silent [of h c]
  by (simp add: ListRooms_def ListAllRooms_def noEffects_def)

text \<open>
  Claim C3 (the code does otherwise). \<open>ListCanPKRooms\<close> asks the room service for the
  candidates of the caller and copies their IDs and names into a response object, but it
  never writes that object: for every handler and every context the list of written
  responses is empty.
\<close>

theorem ListCanPKRooms_returns_no_rooms:
  "responses (fst (ListCanPKRooms h c)) = []
   \<and> cookies (fst (ListCanPKRooms h c)) = []
   \<and> ((\<exists>p. snd (ListCanPKRooms h c) = Some p)
        \<or> calls (fst (ListCanPKRooms h c)) = [CallListPKRooms (GetString c UserIDContextKey)])"
  by (simp add: ListCanPKRooms_def effect_defs Let_def split: sum.splits prod.splits)

subsection \<open>The generated room ID\<close>

lemma alphaNum_length: "length alphaNum = 36"
  by (simp add: alphaNum_def)

lemma alphaNum_index: "alphaNum ! Intn rnd i (length alphaNum) \<in> set alphaNum"
  by (rule nth_mem) (simp add: Intn_def alphaNum_length)

lemma generateRoomID_loop_length:
  "length (generateRoomID_loop rnd i roomID) = length roomID + (idLength - i)"
proof (induction rnd i roomID rule: generateRoomID_loop.induct)
  case (1 rnd i roomID)
  show ?case
  proof (cases "i < idLength")
    case True
    with "1" show ?thesis
      by (subst generateRoomID_loop.simps) (simp add: Let_def)
  next
    case False
    then show ?thesis
      by (subst generateRoomID_loop.simps) simp
  qed
qed

lemma generateRoomID_loop_alphabet:
  "set roomID \<subseteq> set alphaNum \<Longrightarrow> set (generateRoomID_loop rnd i roomID) \<subseteq> set alphaNum"
proof (induction rnd i roomID rule: generateRoomID_loop.induct)
  case (1 rnd i roomID)
  show ?case
  proof (cases "i < idLength")
    case True
    have "set (roomID @ [alphaNum ! Intn rnd i (length alphaNum)]) \<subseteq> set alphaNum"
      using "1.prems" alphaNum_index [of rnd i] by simp
    with "1.IH" True show ?thesis
      by (subst generateRoomID_loop.simps) (simp add: Let_def)
  next
    case False
    with "1.prems" show ?thesis
      by (subst generateRoomID_loop.simps) simp
  qed
qed

lemma generateRoomID_length: "length (generateRoomID rnd) = 16"
  by (simp add: generateRoomID_def generateRoomID_loop_length idLength_def)

lemma generateRoomID_alphabet: "set (generateRoomID rnd) \<subseteq> set alphaNum"
  by (simp add: generateRoomID_def generateRoomID_loop_alphabet)

subsection \<open>CreateRoom and CloseRoom\<close>

lemma CreateRoom_status_cases:
  "CreateRoom_status (ServerError code) =
     (if code = ServerErrorRoomNameUsed then (409, HTTPErrorRoomNameused)
      else if code = ServerErrorTooManyRooms then (503, HTTPErrorTooManyRooms)
      else (500, HTTPErrorInternal))"
  by (cases code) (simp_all add: CreateRoom_status_def status_consts)

lemma CloseRoom_status_cases:
  "CloseRoom_status (ServerError code) =
     (if code = ServerErrorRoomNotFound then (404, HTTPErrorNoSuchRoom)
      else (500, HTTPErrorInternal))"
  by (cases code) (simp_all add: CloseRoom_status_def status_consts)

lemma CreateRoom_status_not_OK: "fst (CreateRoom_status err) \<noteq> StatusOK"
proof (cases err)
  case (ServerError code)
  then show ?thesis by (simp add: CreateRoom_status_cases status_consts)
next
  case (PlainError m)
  then show ?thesis by (simp add: CreateRoom_status_def status_consts)
qed

text \<open>The shape of a run of \<open>CreateRoom\<close> that wrote a 200 answer.\<close>

lemma CreateRoom_success:
  assumes run: "CreateRoom h c bound rnd = (e, p)"
    and ok: "(StatusOK, body) \<in> set (responses e)"
  shows "\<exists>requestID args.
           MustGetLogger c = Inr requestID \<and> bound = Some args
           \<and> validateRoomName (Args_RoomName args)
           \<and> p = None
           \<and> responses e =
               [(StatusOK, BodyCreateRoom
                   \<lparr>RoomID = generateRoomID rnd, RoomName = Args_RoomName args,
                    Resp_RTCRoom = generateRoomID rnd,
                    RTCRoomToken = generateRTCRoomToken h (generateRoomID rnd)\<rparr>)]
           \<and> calls e =
               [CallCreateRoom
                  \<lparr>ID = generateRoomID rnd, Name = Args_RoomName args,
                   Creator = GetString c UserIDContextKey,
                   PlayURL = generatePlayURL h (generateRoomID rnd),
                   RTCRoom = generateRoomID rnd, Status = LiveRoomStatusSingle\<rparr>]"
proof (cases "MustGetLogger c")
  case (Inl pn)
  with run ok show ?thesis
    by (auto simp: CreateRoom_def effect_defs)
next
  case (Inr requestID)
  show ?thesis
  proof (cases bound)
    case None
    with Inr run ok show ?thesis
      by (auto simp: CreateRoom_def effect_defs status_consts)
  next
    case (Some args)
    show ?thesis
    proof (cases "validateRoomName (Args_RoomName args)")
      case False
      with Inr Some run ok show ?thesis
        by (auto simp: CreateRoom_def effect_defs status_consts)
    next
      case True
      let ?room = "\<lparr>ID = generateRoomID rnd, Name = Args_RoomName args,
                     Creator = GetString c UserIDContextKey,
                     PlayURL = generatePlayURL h (generateRoomID rnd),
                     RTCRoom = generateRoomID rnd, Status = LiveRoomStatusSingle\<rparr>"
      show ?thesis
      proof (cases "Room_CreateRoom (Room h) ?room")
        case None
        with Inr Some True run show ?thesis
          by (auto simp: CreateRoom_def effect_defs Let_def)
      next
        case (Some err)
        obtain st kd where sk: "CreateRoom_status err = (st, kd)"
          by (cases "CreateRoom_status err")
        with CreateRoom_status_not_OK [of err] have "st \<noteq> StatusOK" by simp
        with Inr \<open>bound = Some args\<close> True Some sk run ok show ?thesis
          by (auto simp: CreateRoom_def effect_defs Let_def split: error.splits)
      qed
    qed
  qed
qed

text \<open>
  Claim C7. When \<open>CreateRoom\<close> succeeds (it answers 200), exactly one room was handed to
  the storage service, and that room has status Single, the caller as creator, an ID of
  exactly 16 characters all taken from \<open>0-9a-z\<close>, and the play URL
  \<open>rtmp://LiveHost/LiveHub/ID\<close>.
\<close>

theorem CreateRoom_room_handed_to_storage:
  assumes "CreateRoom h c bound rnd = (e, p)"
    and "(StatusOK, body) \<in> set (responses e)"
  shows "\<exists>room. calls e = [CallCreateRoom room]
           \<and> Status room = LiveRoomStatusSingle
           \<and> Creator room = GetString c UserIDContextKey
           \<and> length (ID room) = 16
           \<and> set (ID room) \<subseteq> set ''0123456789abcdefghijklmnopqrstuvwxyz''
           \<and> PlayURL room = ''rtmp://'' @ LiveHost h @ ''/'' @ LiveHub h @ ''/'' @ ID room"
proof -
  from CreateRoom_success [OF assms] obtain args :: CreateRoomArgs where
    cl: "calls e =
           [CallCreateRoom
              \<lparr>ID = generateRoomID rnd, Name = Args_RoomName args,
               Creator = GetString c UserIDContextKey,
               PlayURL = generatePlayURL h (generateRoomID rnd),
               RTCRoom = generateRoomID rnd, Status = LiveRoomStatusSingle\<rparr>]"
    by blast
  have "set (generateRoomID rnd) \<subseteq> set ''0123456789abcdefghijklmnopqrstuvwxyz''"
    using generateRoomID_alphabet [of rnd] by (simp only: alphaNum_def)
  with cl show ?thesis
    by (simp add: generateRoomID_length generatePlayURL_def)
qed

text \<open>
  Claim C10. The answer of a successful \<open>CreateRoom\<close> is the only response written, it
  is a \<open>CreateRoomResponse\<close>, and its \<open>RTCRoomToken\<close> is the empty string.
\<close>

theorem CreateRoom_RTCRoomToken_empty:
  assumes "CreateRoom h c bound rnd = (e, p)"
    and "(StatusOK, body) \<in> set (responses e)"
  shows "\<exists>resp. body = BodyCreateRoom resp \<and> responses e = [(StatusOK, body)]
           \<and> RTCRoomToken resp = []"
proof -
  from CreateRoom_success [OF assms] obtain args :: CreateRoomArgs where
    "responses e =
       [(StatusOK, BodyCreateRoom
           \<lparr>RoomID = generateRoomID rnd, RoomName = Args_RoomName args,
            Resp_RTCRoom = generateRoomID rnd,
            RTCRoomToken = generateRTCRoomToken h (generateRoomID rnd)\<rparr>)]"
    by blast
  with assms(2) show ?thesis
    by (auto simp: generateRTCRoomToken_def)
qed

subsection \<open>Evaluation on concrete requests\<close>

lemma generateRoomID_countingRand: "generateRoomID countingRand = ''0123456789abcdef''"
  by (simp add: generateRoomID_def generateRoomID_loop.simps idLength_def Intn_def
      alphaNum_def countingRand_def)

lemma MustGetLogger_aliceContext: "MustGetLogger aliceContext = Inr ''req-1''"
  by (simp add: MustGetLogger_def Get_def aliceContext_def)

lemma GetString_aliceContext: "GetString aliceContext UserIDContextKey = ''alice''"
  by (simp add: GetString_def aliceContext_def)

lemma validateRoomName_alice_stream: "validateRoomName ''alice_stream''"
  by (simp add: validateRoomName_def)

lemma CreateRoom_alice_stream:
  "CreateRoom (liveHandler acceptingRooms) aliceContext
     (Some \<lparr>Args_RoomName = ''alice_stream''\<rparr>) countingRand =
   (\<lparr>responses =
        [(200, BodyCreateRoom
            \<lparr>RoomID = ''0123456789abcdef'', RoomName = ''alice_stream'',
             Resp_RTCRoom = ''0123456789abcdef'', RTCRoomToken = []\<rparr>)],
      cookies = [],
      calls =
        [CallCreateRoom
           \<lparr>ID = ''0123456789abcdef'', Name = ''alice_stream'', Creator = ''alice'',
            PlayURL = ''rtmp://live.example.com/qlive/0123456789abcdef'',
            RTCRoom = ''0123456789abcdef'', Status = LiveRoomStatusSingle\<rparr>],
      logs = [(Info, ''user %s created room: ID %s, name %s'')]\<rparr>,
    None)"
  by (simp add: CreateRoom_def MustGetLogger_aliceContext GetString_aliceContext
      validateRoomName_alice_stream generateRoomID_countingRand generatePlayURL_def
      generateRTCRoomToken_def liveHandler_def acceptingRooms_def effect_defs StatusOK_def
      Let_def)

theorem CreateRoom_room_handed_to_storage_witness:
  "(StatusOK, BodyCreateRoom
      \<lparr>RoomID = ''0123456789abcdef'', RoomName = ''alice_stream'',
       Resp_RTCRoom = ''0123456789abcdef'', RTCRoomToken = []\<rparr>)
     \<in> set (responses (fst (CreateRoom (liveHandler acceptingRooms) aliceContext
                               (Some \<lparr>Args_RoomName = ''alice_stream''\<rparr>) countingRand)))
   \<and> (\<exists>room.
         calls (fst (CreateRoom (liveHandler acceptingRooms) aliceContext
                       (Some \<lparr>Args_RoomName = ''alice_stream''\<rparr>) countingRand))
           = [CallCreateRoom room]
         \<and> Status room = LiveRoomStatusSingle
         \<and> Creator room = ''alice''
         \<and> length (ID room) = 16
         \<and> set (ID room) \<subseteq> set ''0123456789abcdefghijklmnopqrstuvwxyz''
         \<and> PlayURL room = ''rtmp://live.example.com/qlive/'' @ ID room)"
proof -
  let ?run = "CreateRoom (liveHandler acceptingRooms) aliceContext
                (Some \<lparr>Args_RoomName = ''alice_stream''\<rparr>) countingRand"
  let ?body = "BodyCreateRoom
      \<lparr>RoomID = ''0123456789abcdef'', RoomName = ''alice_stream'',
       Resp_RTCRoom = ''0123456789abcdef'', RTCRoomToken = []\<rparr>"
  have run: "?run = (fst ?run, snd ?run)" by simp
  have ok: "(StatusOK, ?body) \<in> set (responses (fst ?run))"
    by (simp add: CreateRoom_alice_stream StatusOK_def)
  from CreateRoom_room_handed_to_storage [OF run ok] ok show ?thesis
    by (simp add: GetString_aliceContext liveHandler_def)
qed

theorem CreateRoom_RTCRoomToken_empty_witness:
  "(StatusOK, BodyCreateRoom
      \<lparr>RoomID = ''0123456789abcdef'', RoomName = ''alice_stream'',
       Resp_RTCRoom = ''0123456789abcdef'', RTCRoomToken = []\<rparr>)
     \<in> set (responses (fst (CreateRoom (liveHandler acceptingRooms) aliceContext
                               (Some \<lparr>Args_RoomName = ''alice_stream''\<rparr>) countingRand)))
   \<and> (\<exists>resp.
         responses (fst (CreateRoom (liveHandler acceptingRooms) aliceContext
                           (Some \<lparr>Args_RoomName = ''alice_stream''\<rparr>) countingRand))
           = [(StatusOK, BodyCreateRoom resp)]
         \<and> RTCRoomToken resp = [])"
proof -
  let ?run = "CreateRoom (liveHandler acceptingRooms) aliceContext
                (Some \<lparr>Args_RoomName = ''alice_stream''\<rparr>) countingRand"
  let ?body = "BodyCreateRoom
      \<lparr>RoomID = ''0123456789abcdef'', RoomName = ''alice_stream'',
       Resp_RTCRoom = ''0123456789abcdef'', RTCRoomToken = []\<rparr>"
  have run: "?run = (fst ?run, snd ?run)" by simp
  have ok: "(StatusOK, ?body) \<in> set (responses (fst ?run))"
    by (simp add: CreateRoom_alice_stream StatusOK_def)
  from CreateRoom_RTCRoomToken_empty [OF run ok] ok show ?thesis
    by auto
qed

subsection \<open>The status answered for a service error\<close>

text \<open>
  Claim C4, as stated, fails: when the room service answers \<open>CloseRoom\<close> with a
  \<open>ServerError\<close> whose code is NoPermission, the handler answers 500, where the claimed
  table says 403.
\<close>

theorem CloseRoom_NoPermission_counterexample:
  "map fst (responses (fst (CloseRoom
       (liveHandler (failingRooms (ServerError ServerErrorNoPermission)))
       aliceContext (Some \<lparr>Args_RoomID = ''0123456789abcdef''\<rparr>)))) = [500]
   \<and> claimed_transport_status ServerErrorNoPermission = 403
   \<and> map fst (responses (fst (CloseRoom
       (liveHandler (failingRooms (ServerError ServerErrorNoPermission)))
       aliceContext (Some \<lparr>Args_RoomID = ''0123456789abcdef''\<rparr>))))
       \<noteq> [claimed_transport_status ServerErrorNoPermission]"
  by (simp add: CloseRoom_def MustGetLogger_aliceContext CloseRoom_status_def
      liveHandler_def failingRooms_def effect_defs status_consts http_error_defs
      claimed_transport_status_def Let_def)

text \<open>
  Claim C4, amended. Each room handler has a table of its own and neither knows a 403.
  Whenever the service answers the call of the handler with a \<open>ServerError\<close> (for
  \<open>CreateRoom\<close>: the call with the very room the handler built for this request),
  \<open>CreateRoom\<close> answers 409 for RoomNameUsed, 503 for TooManyRooms and 500 for every
  other code; \<open>CloseRoom\<close> answers 404 for RoomNotFound and 500 for every other code.
  Each writes exactly one response.
\<close>

theorem room_handlers_status_table:
  assumes "MustGetLogger c = Inr requestID"
  shows "(validateRoomName (Args_RoomName ca)
            \<and> Room_CreateRoom (Room h)
                  \<lparr>ID = generateRoomID rnd, Name = Args_RoomName ca,
                   Creator = GetString c UserIDContextKey,
                   PlayURL = generatePlayURL h (generateRoomID rnd),
                   RTCRoom = generateRoomID rnd, Status = LiveRoomStatusSingle\<rparr>
                = Some (ServerError createCode)
          \<longrightarrow> map fst (responses (fst (CreateRoom h c (Some ca) rnd))) =
                [if createCode = ServerErrorRoomNameUsed then 409
                 else if createCode = ServerErrorTooManyRooms then 503
                 else 500])
       \<and> (Room_CloseRoom (Room h) (GetString c UserIDContextKey) (Args_RoomID cl)
             = Some (ServerError closeCode)
          \<longrightarrow> map fst (responses (fst (CloseRoom h c (Some cl)))) =
                [if closeCode = ServerErrorRoomNotFound then 404 else 500])"
  using assms
  by (simp add: CreateRoom_def CloseRoom_def CreateRoom_status_cases CloseRoom_status_cases
      effect_defs Let_def)

text \<open>
  The theorem at a service whose answer depends on the room: the name \<open>alice_stream\<close> is
  taken, so creating it is answered 409, while the same service accepts \<open>bob_stream\<close>
  (answer 200); closing an unknown room is answered 404.
\<close>

lemma CreateRoom_bob_stream_accepted:
  "map fst (responses (fst (CreateRoom (liveHandler (nameTakenRooms ''alice_stream''))
       aliceContext (Some \<lparr>Args_RoomName = ''bob_stream''\<rparr>) countingRand))) = [200]"
  by (simp add: CreateRoom_def MustGetLogger_aliceContext GetString_aliceContext
      validateRoomName_def generateRoomID_countingRand liveHandler_def nameTakenRooms_def
      effect_defs StatusOK_def Let_def)

theorem room_handlers_status_table_witness:
  "MustGetLogger aliceContext = Inr ''req-1''
   \<and> validateRoomName ''alice_stream''
   \<and> Room_CreateRoom (Room (liveHandler (nameTakenRooms ''alice_stream'')))
        \<lparr>ID = ''0123456789abcdef'', Name = ''alice_stream'', Creator = ''alice'',
         PlayURL = ''rtmp://live.example.com/qlive/0123456789abcdef'',
         RTCRoom = ''0123456789abcdef'', Status = LiveRoomStatusSingle\<rparr>
       = Some (ServerError ServerErrorRoomNameUsed)
   \<and> map fst (responses (fst (CreateRoom
        (liveHandler (nameTakenRooms ''alice_stream'')) aliceContext
        (Some \<lparr>Args_RoomName = ''alice_stream''\<rparr>) countingRand))) = [409]
   \<and> Room_CloseRoom (Room (liveHandler (nameTakenRooms ''alice_stream'')))
        ''alice'' ''0123456789abcdef''
       = Some (ServerError ServerErrorRoomNotFound)
   \<and> map fst (responses (fst (CloseRoom
        (liveHandler (nameTakenRooms ''alice_stream'')) aliceContext
        (Some \<lparr>Args_RoomID = ''0123456789abcdef''\<rparr>)))) = [404]"
  using room_handlers_status_table [OF MustGetLogger_aliceContext,
      where ca = "\<lparr>Args_RoomName = ''alice_stream''\<rparr>"
        and h = "liveHandler (nameTakenRooms ''alice_stream'')"
        and createCode = ServerErrorRoomNameUsed
        and cl = "\<lparr>Args_RoomID = ''0123456789abcdef''\<rparr>"
        and closeCode = ServerErrorRoomNotFound
        and rnd = countingRand]
  by (simp add: MustGetLogger_aliceContext GetString_aliceContext
      validateRoomName_alice_stream generateRoomID_countingRand generatePlayURL_def
      liveHandler_def nameTakenRooms_def)

section \<open>Properties of handler/account.go\<close>

lemma matchHere_append: "matchHere s \<Longrightarrow> matchHere (s @ post)"
  by (cases s rule: matchHere.cases) simp_all

lemma MatchString_append: "MatchString s \<Longrightarrow> MatchString (s @ post)"
proof (induction s)
  case Nil
  then show ?case by simp
next
  case (Cons ch s)
  then show ?case
    using matchHere_append [of "ch # s" post] by auto
qed

lemma MatchString_prepend: "MatchString s \<Longrightarrow> MatchString (pre @ s)"
  by (induction pre) simp_all

text \<open>A string that contains a string passing the check passes the check.\<close>

lemma validatePhoneNumber_contains:
  "validatePhoneNumber d \<Longrightarrow> validatePhoneNumber (pre @ d @ post)"
  unfolding validatePhoneNumber_def
  by (rule MatchString_prepend) (rule MatchString_append)

lemma validatePhoneNumber_padded: "validatePhoneNumber ''a13812345678''"
  by (simp add: validatePhoneNumber_def isDigit_def isThreeToNine_def)

text \<open>
  Claim C5 (the code does otherwise). The expression of \<open>validatePhoneNumber\<close> is not
  anchored, so a string that only contains a well-formed number passes: for
  \<open>phone_number=a13812345678\<close> (twelve characters) \<open>SendSMSCode\<close> does not answer 400 but
  asks the SMS service to send a code to that string and answers 200.
\<close>

theorem SendSMSCode_accepts_padded_number:
  "length ''a13812345678'' = 12
   \<and> validatePhoneNumber ''a13812345678''
   \<and> SendSMSCode \<lparr>Account = acct, SMSCode = deliveringSMS\<rparr> paddedPhoneContext =
       (\<lparr>responses = [(200, BodyString [])],
         cookies = [],
         calls = [CallSMSSend ''a13812345678''],
         logs = [(Info, ''SMS code sent to number %s'')]\<rparr>,
        None)"
  by (simp add: SendSMSCode_def validatePhoneNumber_padded MustGetLogger_def Get_def
      GetQuery_def paddedPhoneContext_def deliveringSMS_def effect_defs StatusOK_def Let_def)

text \<open>
  Claim C6 (the code does otherwise). For a request whose context holds no user ID,
  \<open>Logout\<close> writes the 401 answer and then goes on to evaluate \<open>id.(string)\<close> on the
  absent value: the handler panics. No session is deleted, since the panic comes before
  the call of \<open>AccountLogout\<close>.
\<close>

theorem Logout_without_user_ID_panics:
  "Get anonymousContext UserIDContextKey = None
   \<and> Logout h anonymousContext =
       (\<lparr>responses =
           [(401, BodyHTTPError
               \<lparr>Kind = HTTPErrorNotLoggedIn, RequestID = ''req-2'', Message = None\<rparr>)],
         cookies = [],
         calls = [],
         logs = [(Info, ''cannot find ID in context'')]\<rparr>,
        Some PanicTypeAssertion)"
  by (simp add: Logout_def MustGetLogger_def Get_def anonymousContext_def effect_defs
      http_error_defs StatusUnauthorized_def Let_def)

section \<open>Properties of controller/auth.go\<close>

lemma find_token_Some:
  "find (\<lambda>d. Token d = token) ds = Some d \<Longrightarrow> d \<in> set ds \<and> Token d = token"
  by (induction ds) (auto split: if_splits)

lemma find_token_None:
  "(find (\<lambda>d. Token d = token) ds = None) = (\<forall>d \<in> set ds. Token d \<noteq> token)"
  by (induction ds) auto

lemma GetIDByToken_collection:
  "activeUserColl (fst (snd (GetIDByToken c xlArg token))) = activeUserColl c"
  by (simp add: GetIDByToken_def Let_def split: sum.splits option.splits)

lemma GetIDByToken_Inr:
  assumes "fst (GetIDByToken c xlArg token) = Inr uid"
  shows "\<exists>d \<in> set (docs (activeUserColl c)). Token d = token \<and> ActiveUser_ID d = uid"
proof -
  from assms obtain d where
    "find (\<lambda>d. Token d = token) (docs (activeUserColl c)) = Some d" "ActiveUser_ID d = uid"
    by (auto simp: GetIDByToken_def FindOne_def Let_def split: sum.splits option.splits if_splits)
  with find_token_Some [of token "docs (activeUserColl c)" d] show ?thesis by blast
qed

lemma GetIDByToken_found:
  assumes "outage (activeUserColl c) = None"
    and "d \<in> set (docs (activeUserColl c))" and "Token d = token"
  shows "\<exists>uid. fst (GetIDByToken c xlArg token) = Inr uid"
proof -
  from assms(2,3) find_token_None [of token "docs (activeUserColl c)"]
  obtain d' where "find (\<lambda>d. Token d = token) (docs (activeUserColl c)) = Some d'"
    by (cases "find (\<lambda>d. Token d = token) (docs (activeUserColl c))") auto
  with assms(1) show ?thesis
    by (simp add: GetIDByToken_def FindOne_def Let_def)
qed

lemma GetIDByToken_absent:
  assumes "\<forall>d \<in> set (docs (activeUserColl c)). Token d \<noteq> token"
  shows "\<exists>err. fst (GetIDByToken c xlArg token) = Inl err
           \<and> (outage (activeUserColl c) = None \<longrightarrow> err = ErrNoDocuments)"
proof -
  from assms have "find (\<lambda>d. Token d = token) (docs (activeUserColl c)) = None"
    by (simp add: find_token_None)
  then show ?thesis
    by (simp add: GetIDByToken_def FindOne_def Let_def IsErrNoDocuments_def
        split: option.splits)
qed

text \<open>
  Claim C8. \<open>GetIDByToken\<close> never changes the collection of logged-in users. An ID it
  returns is the ID of a document whose token is the given one. When the collection
  answers the query (no driver error), it returns an ID exactly when a document with that
  token exists, and it fails with \<open>ErrNoDocuments\<close> when none exists; with or without a
  driver error it fails when none exists. The code has no expiry: every document of the
  collection is an active session.
\<close>

theorem GetIDByToken_resolves_token:
  "activeUserColl (fst (snd (GetIDByToken c xlArg token))) = activeUserColl c
   \<and> (\<forall>uid. fst (GetIDByToken c xlArg token) = Inr uid \<longrightarrow>
          (\<exists>d \<in> set (docs (activeUserColl c)). Token d = token \<and> ActiveUser_ID d = uid))
   \<and> (outage (activeUserColl c) = None \<longrightarrow>
          ((\<exists>uid. fst (GetIDByToken c xlArg token) = Inr uid)
             = (\<exists>d \<in> set (docs (activeUserColl c)). Token d = token)))
   \<and> ((\<forall>d \<in> set (docs (activeUserColl c)). Token d \<noteq> token) \<longrightarrow>
          (\<exists>err. fst (GetIDByToken c xlArg token) = Inl err
             \<and> (outage (activeUserColl c) = None \<longrightarrow> err = ErrNoDocuments)))"
proof (intro conjI allI impI)
  show "activeUserColl (fst (snd (GetIDByToken c xlArg token))) = activeUserColl c"
    by (rule GetIDByToken_collection)
next
  fix uid
  assume "fst (GetIDByToken c xlArg token) = Inr uid"
  then show "\<exists>d \<in> set (docs (activeUserColl c)). Token d = token \<and> ActiveUser_ID d = uid"
    by (rule GetIDByToken_Inr)
next
  assume "outage (activeUserColl c) = None"
  then show "(\<exists>uid. fst (GetIDByToken c xlArg token) = Inr uid)
               = (\<exists>d \<in> set (docs (activeUserColl c)). Token d = token)"
    using GetIDByToken_Inr [of c xlArg token] GetIDByToken_found [of c _ token xlArg]
    by blast
next
  assume "\<forall>d \<in> set (docs (activeUserColl c)). Token d \<noteq> token"
  then show "\<exists>err. fst (GetIDByToken c xlArg token) = Inl err
               \<and> (outage (activeUserColl c) = None \<longrightarrow> err = ErrNoDocuments)"
    by (rule GetIDByToken_absent)
qed

lemma GetIDByToken_twoUsers_second:
  "fst (GetIDByToken twoUsers None ''token-two'') = Inr ''user00000002''"
  by (simp add: GetIDByToken_def FindOne_def twoUsers_def Let_def)

lemma GetIDByToken_twoUsers_unknown:
  "GetIDByToken twoUsers None ''token-six'' =
     (Inl ErrNoDocuments,
      twoUsers\<lparr>xl := [(Error, ''failed to find token in active users, error %v'')]\<rparr>,
      None)"
  by (simp add: GetIDByToken_def FindOne_def twoUsers_def Let_def IsErrNoDocuments_def)

theorem GetIDByToken_resolves_token_witness:
  "outage (activeUserColl twoUsers) = None
   \<and> fst (GetIDByToken twoUsers None ''token-two'') = Inr ''user00000002''
   \<and> (\<exists>d \<in> set (docs (activeUserColl twoUsers)).
         Token d = ''token-two'' \<and> ActiveUser_ID d = ''user00000002'')
   \<and> fst (GetIDByToken twoUsers None ''token-six'') = Inl ErrNoDocuments
   \<and> activeUserColl (fst (snd (GetIDByToken twoUsers None ''token-six'')))
       = activeUserColl twoUsers"
proof -
  have free: "outage (activeUserColl twoUsers) = None"
    by (simp add: twoUsers_def)
  have none: "\<forall>d \<in> set (docs (activeUserColl twoUsers)). Token d \<noteq> ''token-six''"
    by (simp add: twoUsers_def)
  from GetIDByToken_resolves_token [of twoUsers None "''token-two''"]
    GetIDByToken_twoUsers_second
  have two: "\<exists>d \<in> set (docs (activeUserColl twoUsers)).
               Token d = ''token-two'' \<and> ActiveUser_ID d = ''user00000002''"
    by blast
  from GetIDByToken_resolves_token [of twoUsers None "''token-six''"] free none
  have six: "fst (GetIDByToken twoUsers None ''token-six'') = Inl ErrNoDocuments"
    and same: "activeUserColl (fst (snd (GetIDByToken twoUsers None ''token-six'')))
                 = activeUserColl twoUsers"
    by auto
  from free two six same GetIDByToken_twoUsers_second show ?thesis by simp
qed

section \<open>The pairing invariant of the room service\<close>

lemma pairing_invariant_iff:
  "pairing_invariant rooms =
     (distinct (map ID rooms)
      \<and> (\<forall>a \<in> set rooms. \<forall>p. PartnerRoomID a = Some p \<longrightarrow>
            Status a = LiveRoomStatusPKConnected
            \<and> (\<exists>b \<in> set rooms. ID b = p \<and> PartnerRoomID b = Some (ID a)
                  \<and> Status b = LiveRoomStatusPKConnected)))"
  by (auto simp: pairing_invariant_def paired_def list_all_iff list_ex_iff
      split: option.splits)

lemma findRoom_Some: "findRoom roomID rooms = Some r \<Longrightarrow> r \<in> set rooms \<and> ID r = roomID"
  unfolding findRoom_def by (induction rooms) (auto split: if_splits)

lemma findRoom_None: "findRoom roomID rooms = None \<Longrightarrow> \<forall>r \<in> set rooms. ID r \<noteq> roomID"
  unfolding findRoom_def by (induction rooms) (auto split: if_splits)

lemma same_ID_same_room:
  "distinct (map ID rooms) \<Longrightarrow> a \<in> set rooms \<Longrightarrow> b \<in> set rooms \<Longrightarrow> ID a = ID b \<Longrightarrow> a = b"
  by (induction rooms) (auto simp: image_iff)

lemma findRoom_member:
  "distinct (map ID rooms) \<Longrightarrow> r \<in> set rooms \<Longrightarrow> findRoom (ID r) rooms = Some r"
proof -
  assume d: "distinct (map ID rooms)" and r: "r \<in> set rooms"
  show ?thesis
  proof (cases "findRoom (ID r) rooms")
    case None
    with findRoom_None [of "ID r" rooms] r show ?thesis by blast
  next
    case (Some r')
    with findRoom_Some [of "ID r" rooms r'] same_ID_same_room [OF d _ r] show ?thesis
      by auto
  qed
qed

lemma find_fresh_Some:
  "find (\<lambda>roomID. \<not> list_ex (\<lambda>r. ID r = roomID) rooms) candidates = Some roomID
     \<Longrightarrow> roomID \<notin> ID ` set rooms"
  by (induction candidates) (auto simp: list_ex_iff split: if_splits)

lemma Service_CreateRoom_invariant:
  assumes "Service_CreateRoom cfg candidates creatorID name rooms = Inr rooms'"
    and "pairing_invariant rooms"
  shows "pairing_invariant rooms'"
proof -
  from assms(1) obtain roomID where
    fresh: "roomID \<notin> ID ` set rooms" and
    new: "rooms' = rooms @
           [\<lparr>ID = roomID, Name = name, Creator = creatorID,
             PlayURL = ''rtmp://'' @ Host cfg @ ''/'' @ Hub cfg @ ''/'' @ roomID,
             RTCRoom = roomID, Status = LiveRoomStatusSingle, PartnerRoomID = None\<rparr>]"
    by (auto simp: Service_CreateRoom_def split: if_splits option.splits
        dest: find_fresh_Some)
  from assms(2) fresh show ?thesis
    unfolding new pairing_invariant_iff by auto
qed

subsection \<open>Pairing keeps the invariant\<close>

lemma pairRoom_ID: "ID (pairRoom callerRoomID targetRoomID r) = ID r"
  by (simp add: pairRoom_def)

lemma pairRoom_caller:
  "ID r = callerRoomID \<Longrightarrow>
     PartnerRoomID (pairRoom callerRoomID targetRoomID r) = Some targetRoomID
     \<and> Status (pairRoom callerRoomID targetRoomID r) = LiveRoomStatusPKConnected"
  by (simp add: pairRoom_def)

lemma pairRoom_target:
  "ID r = targetRoomID \<Longrightarrow>
     PartnerRoomID (pairRoom callerRoomID targetRoomID r) = Some callerRoomID
     \<and> Status (pairRoom callerRoomID targetRoomID r) = LiveRoomStatusPKConnected"
  by (simp add: pairRoom_def)

lemma pairRoom_other:
  "ID r \<noteq> callerRoomID \<Longrightarrow> ID r \<noteq> targetRoomID \<Longrightarrow>
     pairRoom callerRoomID targetRoomID r = r"
  by (simp add: pairRoom_def)

lemma map_pairRoom_IDs:
  "map ID (map (pairRoom callerRoomID targetRoomID) rooms) = map ID rooms"
  by (induction rooms) (simp_all add: pairRoom_ID)

lemma Service_RequestPK_Inr:
  assumes "Service_RequestPK callerRoomID targetRoomID rooms = Inr rooms'"
  shows "\<exists>a b. findRoom callerRoomID rooms = Some a \<and> findRoom targetRoomID rooms = Some b
           \<and> Status a = LiveRoomStatusSingle \<and> Status b = LiveRoomStatusSingle
           \<and> rooms' = map (pairRoom callerRoomID targetRoomID) rooms"
proof (cases "findRoom callerRoomID rooms")
  case None
  with assms show ?thesis by (simp add: Service_RequestPK_def)
next
  case (Some a)
  note fa = Some
  show ?thesis
  proof (cases "findRoom targetRoomID rooms")
    case None
    with assms fa show ?thesis by (simp add: Service_RequestPK_def)
  next
    case (Some b)
    with assms fa show ?thesis
      by (simp add: Service_RequestPK_def split: if_split_asm)
  qed
qed

lemma pairRoom_keeps_paired:
  assumes d: "distinct (map ID rooms)"
    and inv: "\<And>x p. x \<in> set rooms \<Longrightarrow> PartnerRoomID x = Some p \<Longrightarrow>
               Status x = LiveRoomStatusPKConnected
               \<and> (\<exists>y \<in> set rooms. ID y = p \<and> PartnerRoomID y = Some (ID x)
                     \<and> Status y = LiveRoomStatusPKConnected)"
    and a: "a \<in> set rooms" "ID a = callerRoomID" "Status a = LiveRoomStatusSingle"
    and b: "b \<in> set rooms" "ID b = targetRoomID" "Status b = LiveRoomStatusSingle"
    and x: "x \<in> set rooms"
    and px: "PartnerRoomID (pairRoom callerRoomID targetRoomID x) = Some p"
  shows "Status (pairRoom callerRoomID targetRoomID x) = LiveRoomStatusPKConnected
         \<and> (\<exists>y \<in> set rooms. ID y = p
               \<and> PartnerRoomID (pairRoom callerRoomID targetRoomID y) = Some (ID x)
               \<and> Status (pairRoom callerRoomID targetRoomID y) = LiveRoomStatusPKConnected)"
proof (cases "ID x = callerRoomID")
  case True
  from pairRoom_caller [OF True, of targetRoomID] px
  have p: "p = targetRoomID"
    and st: "Status (pairRoom callerRoomID targetRoomID x) = LiveRoomStatusPKConnected"
    by simp_all
  from pairRoom_target [OF b(2), of callerRoomID] True p b
  have "ID b = p \<and> PartnerRoomID (pairRoom callerRoomID targetRoomID b) = Some (ID x)
          \<and> Status (pairRoom callerRoomID targetRoomID b) = LiveRoomStatusPKConnected"
    by simp
  with b(1) st show ?thesis by blast
next
  case False
  note nc = False
  show ?thesis
  proof (cases "ID x = targetRoomID")
    case True
    from pairRoom_target [OF True, of callerRoomID] px
    have p: "p = callerRoomID"
      and st: "Status (pairRoom callerRoomID targetRoomID x) = LiveRoomStatusPKConnected"
      by simp_all
    from pairRoom_caller [OF a(2), of targetRoomID] True p a
    have "ID a = p \<and> PartnerRoomID (pairRoom callerRoomID targetRoomID a) = Some (ID x)
            \<and> Status (pairRoom callerRoomID targetRoomID a) = LiveRoomStatusPKConnected"
      by simp
    with a(1) st show ?thesis by blast
  next
    case False
    from pairRoom_other [OF nc False] have same: "pairRoom callerRoomID targetRoomID x = x" .
    from inv [OF x] px same obtain y where
      sx: "Status x = LiveRoomStatusPKConnected" and y: "y \<in> set rooms" "ID y = p"
        "PartnerRoomID y = Some (ID x)" "Status y = LiveRoomStatusPKConnected"
      by auto
    from y(4) a(3) have "y \<noteq> a" by auto
    with same_ID_same_room [OF d y(1) a(1)] a(2) have ya: "ID y \<noteq> callerRoomID" by auto
    from y(4) b(3) have "y \<noteq> b" by auto
    with same_ID_same_room [OF d y(1) b(1)] b(2) have yb: "ID y \<noteq> targetRoomID" by auto
    from pairRoom_other [OF ya yb] have "pairRoom callerRoomID targetRoomID y = y" .
    with y same sx show ?thesis by auto
  qed
qed

lemma Service_RequestPK_invariant:
  assumes "Service_RequestPK callerRoomID targetRoomID rooms = Inr rooms'"
    and "pairing_invariant rooms"
  shows "pairing_invariant rooms'"
proof -
  from Service_RequestPK_Inr [OF assms(1)] obtain a b where
    fa: "findRoom callerRoomID rooms = Some a" and fb: "findRoom targetRoomID rooms = Some b"
    and sa: "Status a = LiveRoomStatusSingle" and sb: "Status b = LiveRoomStatusSingle"
    and new: "rooms' = map (pairRoom callerRoomID targetRoomID) rooms"
    by blast
  from findRoom_Some [OF fa] have a: "a \<in> set rooms" "ID a = callerRoomID" by simp_all
  from findRoom_Some [OF fb] have b: "b \<in> set rooms" "ID b = targetRoomID" by simp_all
  from assms(2) have d: "distinct (map ID rooms)"
    and inv: "\<And>x p. x \<in> set rooms \<Longrightarrow> PartnerRoomID x = Some p \<Longrightarrow>
               Status x = LiveRoomStatusPKConnected
               \<and> (\<exists>y \<in> set rooms. ID y = p \<and> PartnerRoomID y = Some (ID x)
                     \<and> Status y = LiveRoomStatusPKConnected)"
    unfolding pairing_invariant_iff by blast+
  have "\<And>x p. x \<in> set rooms \<Longrightarrow>
          PartnerRoomID (pairRoom callerRoomID targetRoomID x) = Some p \<Longrightarrow>
          Status (pairRoom callerRoomID targetRoomID x) = LiveRoomStatusPKConnected
          \<and> (\<exists>y \<in> set rooms. ID y = p
                \<and> PartnerRoomID (pairRoom callerRoomID targetRoomID y) = Some (ID x)
                \<and> Status (pairRoom callerRoomID targetRoomID y) = LiveRoomStatusPKConnected)"
    by (rule pairRoom_keeps_paired [OF d inv a sa b sb])
  with d show ?thesis
    unfolding new pairing_invariant_iff
    by (simp add: map_pairRoom_IDs pairRoom_ID del: map_map)
qed

subsection \<open>Closing keeps the invariant\<close>

lemma closeRoom_ID: "ID (closeRoom room r) = ID r"
  by (simp add: closeRoom_def)

lemma closeRoom_partner:
  "PartnerRoomID (closeRoom room r) = Some p \<Longrightarrow>
     closeRoom room r = r \<and> ID r \<noteq> ID room
     \<and> \<not> (Status room = LiveRoomStatusPKConnected \<and> PartnerRoomID room = Some (ID r))"
  by (simp add: closeRoom_def split: if_split_asm)

lemma closeRoom_other:
  "ID r \<noteq> ID room \<Longrightarrow>
   \<not> (Status room = LiveRoomStatusPKConnected \<and> PartnerRoomID room = Some (ID r)) \<Longrightarrow>
     closeRoom room r = r"
  by (auto simp: closeRoom_def)

lemma map_closeRoom_IDs: "map ID (map (closeRoom room) rooms) = map ID rooms"
  by (induction rooms) (simp_all add: closeRoom_ID)

lemma Service_CloseRoom_Inr:
  assumes "Service_CloseRoom callerID roomID rooms = Inr rooms'"
  shows "\<exists>room. findRoom roomID rooms = Some room \<and> rooms' = map (closeRoom room) rooms"
proof (cases "findRoom roomID rooms")
  case None
  with assms show ?thesis by (simp add: Service_CloseRoom_def)
next
  case (Some room)
  with assms show ?thesis
    by (simp add: Service_CloseRoom_def split: if_split_asm)
qed

lemma closeRoom_keeps_paired:
  assumes d: "distinct (map ID rooms)"
    and inv: "\<And>x p. x \<in> set rooms \<Longrightarrow> PartnerRoomID x = Some p \<Longrightarrow>
               Status x = LiveRoomStatusPKConnected
               \<and> (\<exists>y \<in> set rooms. ID y = p \<and> PartnerRoomID y = Some (ID x)
                     \<and> Status y = LiveRoomStatusPKConnected)"
    and room: "room \<in> set rooms"
    and x: "x \<in> set rooms"
    and px: "PartnerRoomID (closeRoom room x) = Some p"
  shows "Status (closeRoom room x) = LiveRoomStatusPKConnected
         \<and> (\<exists>y \<in> set rooms. ID y = p
               \<and> PartnerRoomID (closeRoom room y) = Some (ID x)
               \<and> Status (closeRoom room y) = LiveRoomStatusPKConnected)"
proof -
  from closeRoom_partner [OF px]
  have same: "closeRoom room x = x" and xr: "ID x \<noteq> ID room"
    and np: "\<not> (Status room = LiveRoomStatusPKConnected \<and> PartnerRoomID room = Some (ID x))"
    by simp_all
  from inv [OF x] px same obtain y where
    sx: "Status x = LiveRoomStatusPKConnected" and y: "y \<in> set rooms" "ID y = p"
      "PartnerRoomID y = Some (ID x)" "Status y = LiveRoomStatusPKConnected"
    by auto
  have yr: "ID y \<noteq> ID room"
  proof
    assume "ID y = ID room"
    with same_ID_same_room [OF d y(1) room] have "y = room" by simp
    with y(3) y(4) np show False by simp
  qed
  have ny: "\<not> (Status room = LiveRoomStatusPKConnected \<and> PartnerRoomID room = Some (ID y))"
  proof
    assume "Status room = LiveRoomStatusPKConnected \<and> PartnerRoomID room = Some (ID y)"
    with inv [OF room] obtain z where
      z: "z \<in> set rooms" "ID z = ID y" "PartnerRoomID z = Some (ID room)"
      by auto
    from same_ID_same_room [OF d z(1) y(1) z(2)] have "z = y" .
    with z(3) y(3) xr show False by simp
  qed
  from closeRoom_other [OF yr ny] have "closeRoom room y = y" .
  with y same sx show ?thesis by auto
qed

lemma Service_CloseRoom_invariant:
  assumes "Service_CloseRoom callerID roomID rooms = Inr rooms'"
    and "pairing_invariant rooms"
  shows "pairing_invariant rooms'"
proof -
  from Service_CloseRoom_Inr [OF assms(1)] obtain room where
    fr: "findRoom roomID rooms = Some room" and new: "rooms' = map (closeRoom room) rooms"
    by blast
  from findRoom_Some [OF fr] have room: "room \<in> set rooms" by simp
  from assms(2) have d: "distinct (map ID rooms)"
    and inv: "\<And>x p. x \<in> set rooms \<Longrightarrow> PartnerRoomID x = Some p \<Longrightarrow>
               Status x = LiveRoomStatusPKConnected
               \<and> (\<exists>y \<in> set rooms. ID y = p \<and> PartnerRoomID y = Some (ID x)
                     \<and> Status y = LiveRoomStatusPKConnected)"
    unfolding pairing_invariant_iff by blast+
  have "\<And>x p. x \<in> set rooms \<Longrightarrow> PartnerRoomID (closeRoom room x) = Some p \<Longrightarrow>
          Status (closeRoom room x) = LiveRoomStatusPKConnected
          \<and> (\<exists>y \<in> set rooms. ID y = p
                \<and> PartnerRoomID (closeRoom room y) = Some (ID x)
                \<and> Status (closeRoom room y) = LiveRoomStatusPKConnected)"
    by (rule closeRoom_keeps_paired [OF d inv room])
  with d show ?thesis
    unfolding new pairing_invariant_iff
    by (simp add: map_closeRoom_IDs closeRoom_ID del: map_map)
qed

subsection \<open>Every reached collection satisfies the invariant\<close>

lemma applyOp_invariant:
  "applyOp cfg op rooms = Inr rooms' \<Longrightarrow> pairing_invariant rooms \<Longrightarrow> pairing_invariant rooms'"
proof (cases op)
  case (OpCreateRoom candidates creatorID name)
  then show "applyOp cfg op rooms = Inr rooms' \<Longrightarrow> pairing_invariant rooms
               \<Longrightarrow> pairing_invariant rooms'"
    using Service_CreateRoom_invariant [of cfg candidates creatorID name rooms rooms'] by simp
next
  case (OpRequestPK callerRoomID targetRoomID)
  then show "applyOp cfg op rooms = Inr rooms' \<Longrightarrow> pairing_invariant rooms
               \<Longrightarrow> pairing_invariant rooms'"
    using Service_RequestPK_invariant [of callerRoomID targetRoomID rooms rooms'] by simp
next
  case (OpCloseRoom callerID roomID)
  then show "applyOp cfg op rooms = Inr rooms' \<Longrightarrow> pairing_invariant rooms
               \<Longrightarrow> pairing_invariant rooms'"
    using Service_CloseRoom_invariant [of callerID roomID rooms rooms'] by simp
qed

lemma stepRooms_invariant:
  "pairing_invariant rooms \<Longrightarrow> pairing_invariant (stepRooms cfg rooms op)"
  by (cases "applyOp cfg op rooms") (simp_all add: stepRooms_def applyOp_invariant)

lemma foldl_stepRooms_invariant:
  "pairing_invariant rooms \<Longrightarrow> pairing_invariant (foldl (stepRooms cfg) rooms ops)"
  by (induction ops arbitrary: rooms) (simp_all add: stepRooms_invariant)

lemma reached_invariant: "pairing_invariant (reached cfg ops)"
  unfolding reached_def
  by (rule foldl_stepRooms_invariant) (simp add: pairing_invariant_def)

lemma paired_room_refuses_pairing:
  assumes d: "distinct (map ID rooms)" and a: "a \<in> set rooms"
    and st: "Status a = LiveRoomStatusPKConnected"
  shows "(\<exists>err. Service_RequestPK (ID a) other rooms = Inl err)
         \<and> (\<exists>err. Service_RequestPK other (ID a) rooms = Inl err)"
proof -
  from findRoom_member [OF d a] have fa: "findRoom (ID a) rooms = Some a" .
  have "\<exists>err. Service_RequestPK (ID a) other rooms = Inl err"
    using fa st by (cases "findRoom other rooms") (simp_all add: Service_RequestPK_def)
  moreover have "\<exists>err. Service_RequestPK other (ID a) rooms = Inl err"
    using fa st by (cases "findRoom other rooms") (simp_all add: Service_RequestPK_def)
  ultimately show ?thesis by simp
qed

text \<open>
  Claim C2. In every collection of rooms reached from the empty one by room creations,
  pairing requests and closings: when the partner of a stored room \<open>A\<close> is the stored room
  \<open>B\<close>, then the partner of \<open>B\<close> is \<open>A\<close> and both are PKConnected; no third stored room is
  paired with \<open>A\<close> in either direction; and every pairing request that names \<open>A\<close>, as
  caller or as target, fails.
\<close>

theorem partner_is_symmetric:
  assumes "A \<in> set (reached cfg ops)" and "B \<in> set (reached cfg ops)"
    and "PartnerRoomID A = Some (ID B)"
  shows "PartnerRoomID B = Some (ID A)
         \<and> Status A = LiveRoomStatusPKConnected
         \<and> Status B = LiveRoomStatusPKConnected
         \<and> (\<forall>C \<in> set (reached cfg ops).
               PartnerRoomID C = Some (ID A) \<or> PartnerRoomID A = Some (ID C) \<longrightarrow> C = B)
         \<and> (\<forall>other. (\<exists>err. Service_RequestPK (ID A) other (reached cfg ops) = Inl err)
                    \<and> (\<exists>err. Service_RequestPK other (ID A) (reached cfg ops) = Inl err))"
proof -
  let ?rooms = "reached cfg ops"
  from reached_invariant [of cfg ops] have d: "distinct (map ID ?rooms)"
    and inv: "\<And>x p. x \<in> set ?rooms \<Longrightarrow> PartnerRoomID x = Some p \<Longrightarrow>
               Status x = LiveRoomStatusPKConnected
               \<and> (\<exists>y \<in> set ?rooms. ID y = p \<and> PartnerRoomID y = Some (ID x)
                     \<and> Status y = LiveRoomStatusPKConnected)"
    unfolding pairing_invariant_iff by blast+
  from inv [OF assms(1) assms(3)] obtain y where
    sa: "Status A = LiveRoomStatusPKConnected" and y: "y \<in> set ?rooms" "ID y = ID B"
      "PartnerRoomID y = Some (ID A)" "Status y = LiveRoomStatusPKConnected"
    by auto
  from same_ID_same_room [OF d y(1) assms(2) y(2)] have yb: "y = B" .
  have third: "\<forall>C \<in> set ?rooms.
                 PartnerRoomID C = Some (ID A) \<or> PartnerRoomID A = Some (ID C) \<longrightarrow> C = B"
  proof (intro ballI impI)
    fix C
    assume C: "C \<in> set ?rooms"
      and link: "PartnerRoomID C = Some (ID A) \<or> PartnerRoomID A = Some (ID C)"
    have "ID C = ID B"
    proof (cases "PartnerRoomID A = Some (ID C)")
      case True
      with assms(3) show ?thesis by simp
    next
      case False
      with link have pc: "PartnerRoomID C = Some (ID A)" by simp
      from inv [OF C pc] obtain z where
        z: "z \<in> set ?rooms" "ID z = ID A" "PartnerRoomID z = Some (ID C)"
        by auto
      from same_ID_same_room [OF d z(1) assms(1) z(2)] have "z = A" .
      with z(3) assms(3) show ?thesis by simp
    qed
    with same_ID_same_room [OF d C assms(2)] show "C = B" by simp
  qed
  from paired_room_refuses_pairing [OF d assms(1) sa]
  have "\<forall>other. (\<exists>err. Service_RequestPK (ID A) other ?rooms = Inl err)
                 \<and> (\<exists>err. Service_RequestPK other (ID A) ?rooms = Inl err)"
    by blast
  with y(3) y(4) yb sa third show ?thesis by simp
qed

lemma reached_pairedScenario: "reached liveConfig pairedScenario = [aliceRoom, bobRoom]"
  by (simp add: reached_def pairedScenario_def stepRooms_def Service_CreateRoom_def
      Service_RequestPK_def pairRoom_def findRoom_def openRooms_def liveConfig_def
      aliceRoom_def bobRoom_def)

theorem partner_is_symmetric_witness:
  "aliceRoom \<in> set (reached liveConfig pairedScenario)
   \<and> bobRoom \<in> set (reached liveConfig pairedScenario)
   \<and> PartnerRoomID aliceRoom = Some (ID bobRoom)
   \<and> PartnerRoomID bobRoom = Some (ID aliceRoom)
   \<and> Status aliceRoom = LiveRoomStatusPKConnected
   \<and> Status bobRoom = LiveRoomStatusPKConnected
   \<and> (\<exists>err. Service_RequestPK (ID aliceRoom) ''cccccccccccccccc''
                (reached liveConfig pairedScenario) = Inl err)"
proof -
  have a: "aliceRoom \<in> set (reached liveConfig pairedScenario)"
    and b: "bobRoom \<in> set (reached liveConfig pairedScenario)"
    by (simp_all add: reached_pairedScenario)
  have p: "PartnerRoomID aliceRoom = Some (ID bobRoom)"
    by (simp add: aliceRoom_def bobRoom_def)
  from partner_is_symmetric [OF a b p] a b p show ?thesis by blast
qed

end
